theory Spec2Isabelle
  imports Complex_Main
begin

section \<open>Time, the clock and the outside world\<close>

text \<open>
  The package \<open>api\<close> of reddit-tracker holds a token-bucket rate limiter and the Reddit
  client that is gated by it. Both read the wall clock (\<open>time.Now\<close>), sleep
  (\<open>time.Sleep\<close>) and the client talks HTTP. These effects are made explicit: every
  operation takes the world and returns the world it leaves behind.

  Conventions of the embedding:
  \<^item> a \<open>time.Time\<close> is an \<open>int\<close>, the nanoseconds since the Unix epoch, and a
    \<open>time.Duration\<close> is an \<open>int\<close> of nanoseconds, as in Go. Where the code computes a
    64-bit integer the range is written out: a product wraps (\<open>wrap64\<close>), and the
    conversion of a \<open>float64\<close> that does not fit yields what the platform yields
    (\<open>float_to_int64\<close>). Only the clock itself and differences of clock readings are
    taken as unbounded;
  \<^item> a \<open>float64\<close> is a \<open>real\<close>. The limiter is also given with every \<open>float64\<close>
    operation followed by a rounding \<open>rnd\<close> (\<open>Take_fl\<close>, \<open>TakeWithTimeout_fl\<close>); the
    definitions without the suffix are these with exact arithmetic. Infinities and NaN
    are outside the model: Go's \<open>x / 0.0\<close> is an infinity where HOL's \<open>x / 0\<close> is \<open>0\<close>,
    so statements that divide by \<open>fillRate\<close> assume it is not zero;
  \<^item> Go's \<open>int\<close> is an \<open>int\<close>; the integers that enter are parsed by \<open>strconv.Atoi\<close>
    or decoded from JSON, which check the 64-bit range themselves;
  \<^item> the mutexes are not modelled: the embedding is of one goroutine running alone;
  \<^item> logging has no effect on any state the functions read, and is left out.
\<close>

type_synonym Time = int
type_synonym Duration = int

definition Second :: Duration where
  "Second = 1000000000"

text \<open>\<open>Duration.Seconds\<close>: the duration as a floating-point number of seconds.\<close>

definition Seconds :: "Duration \<Rightarrow> real" where
  "Seconds d = real_of_int d / 1000000000"

text \<open>Truncation towards zero: a number without its fraction.\<close>

definition float_to_int :: "real \<Rightarrow> int" where
  "float_to_int x = (if 0 \<le> x then \<lfloor>x\<rfloor> else \<lceil>x\<rceil>)"

text \<open>The result of 64-bit integer arithmetic: the exact result wrapped into the range.\<close>

definition wrap64 :: "int \<Rightarrow> int" where
  "wrap64 x = (x + 2 ^ 63) mod 2 ^ 64 - 2 ^ 63"

text \<open>Go's integer division and remainder, which truncate towards zero.\<close>

definition tdiv :: "int \<Rightarrow> int \<Rightarrow> int" where
  "tdiv a b = sgn a * sgn b * (\<bar>a\<bar> div \<bar>b\<bar>)"

definition tmod :: "int \<Rightarrow> int \<Rightarrow> int" where
  "tmod a b = a - b * tdiv a b"

text \<open>
  \<open>Duration.Seconds\<close> as the library computes it,
  \<open>float64(d / Second) + float64(d % Second) / 1e9\<close>, each operation rounded by \<open>rnd\<close>.
\<close>

definition Seconds_fl :: "(real \<Rightarrow> real) \<Rightarrow> Duration \<Rightarrow> real" where
  "Seconds_fl rnd d =
     rnd (rnd (real_of_int (tdiv d Second)) + rnd (rnd (real_of_int (tmod d Second)) / 1000000000))"

subsection \<open>HTTP messages\<close>

text \<open>The element type of \<open>RedditResponse.Data.Children\<close> (struct \<open>RedditPost\<close>).\<close>

record RedditPost =
  rp_Kind :: string
  rp_ID :: string
  rp_Name :: string
  rp_Title :: string
  rp_Author :: string
  rp_Subreddit :: string
  rp_URL :: string
  rp_CreatedUTC :: real
  rp_Ups :: int
  rp_Downs :: int
  rp_Score :: int
  rp_NumComments :: int
  rp_PostHint :: string
  rp_IsVideo :: bool
  rp_IsSelf :: bool
  rp_SelfText :: string
  rp_Permalink :: string

record RedditResponse =
  rr_Kind :: string
  rr_After :: string
  rr_Before :: string
  rr_Children :: "RedditPost list"

text \<open>The anonymous struct \<open>authResp\<close> of \<open>authenticate\<close>.\<close>

record AuthResponse =
  AccessToken :: string
  ExpiresIn :: int
  TokenType :: string

text \<open>
  An \<open>http.Response\<close> as far as the client looks at it. \<open>Header\<close> maps a canonical
  header name to its values, in order. JSON decoding is not modelled: the response
  carries what \<open>json.Decoder.Decode\<close> yields for its body into each of the two target
  structs, \<open>None\<close> when decoding returns an error.
\<close>

record Response =
  StatusCode :: int
  Header :: "(string \<times> string list) list"
  Body :: string
  decode_auth :: "AuthResponse option"
  decode_listing :: "RedditResponse option"

text \<open>
  The request handed to \<open>httpClient.Do\<close>: method, URL, the credentials given to
  \<open>SetBasicAuth\<close>, the headers set with \<open>Header.Set\<close> in order, and the body.
\<close>

record Request =
  req_method :: string
  req_url :: string
  req_basic_auth :: "(string \<times> string) option"
  req_header :: "(string \<times> string) list"
  req_body :: string

text \<open>
  What one call of \<open>httpClient.Do\<close> does: it takes some time and then either returns an
  error (with its message) or a response.
\<close>

datatype outcome = DoFails nat string | Responds nat Response

text \<open>
  The effects a run performs, in order: a \<open>time.Sleep d\<close>, or a request passed to
  \<open>httpClient.Do\<close> together with what came back.
\<close>

datatype event = Slept Duration | Http Request outcome

text \<open>
  The world: the clock, the outcomes of the HTTP calls still to come (a call made after
  the list is used up fails at once), which URLs \<open>http.NewRequest\<close> accepts, what the
  platform yields when a \<open>float64\<close> outside the range of \<open>int64\<close> is converted to
  \<open>int64\<close> (the language leaves it to the implementation), and the effects performed so
  far.
\<close>

record world =
  clock :: Time
  pending :: "outcome list"
  url_ok :: "string \<Rightarrow> bool"
  huge_to_int64 :: "real \<Rightarrow> int"
  trace :: "event list"

text \<open>
  The conversion of a \<open>float64\<close> to \<open>int64\<close>, as in \<open>time.Duration(x)\<close> and \<open>int64(x)\<close>:
  the fraction is discarded, and a value that does not fit is left to the platform.
\<close>

definition fits_int64 :: "real \<Rightarrow> bool" where
  "fits_int64 x = (- (2 ^ 63) \<le> float_to_int x \<and> float_to_int x < 2 ^ 63)"

definition float_to_int64 :: "world \<Rightarrow> real \<Rightarrow> int" where
  "float_to_int64 w x = (if fits_int64 x then float_to_int x else huge_to_int64 w x)"

text \<open>On amd64 the conversion of every value that does not fit yields the least \<open>int64\<close>.\<close>

definition amd64_huge :: "real \<Rightarrow> int" where
  "amd64_huge x = - (2 ^ 63)"

text \<open>Time that passes between two operations of the program.\<close>

definition Elapse :: "nat \<Rightarrow> world \<Rightarrow> world" where
  "Elapse n w = w\<lparr>clock := clock w + int n\<rparr>"

text \<open>\<open>time.Sleep d\<close>: returns at once when \<open>d \<le> 0\<close>.\<close>

definition Sleep :: "Duration \<Rightarrow> world \<Rightarrow> world" where
  "Sleep d w = w\<lparr>clock := clock w + max 0 d, trace := trace w @ [Slept d]\<rparr>"

section \<open>The token bucket\<close>

text \<open>
  Struct \<open>TokenBucket\<close> without its mutex. \<open>NewTokenBucket\<close> seeds one token whatever
  the capacity is.
\<close>

record TokenBucket =
  capacity :: int
  tokens :: real
  fillRate :: real
  lastRefill :: Time
  waitTimeout :: Duration

definition NewTokenBucket :: "int \<Rightarrow> real \<Rightarrow> Duration \<Rightarrow> world \<Rightarrow> TokenBucket" where
  "NewTokenBucket cap rate timeout w =
     \<lparr>capacity = cap, tokens = 1, fillRate = rate, lastRefill = clock w,
      waitTimeout = timeout\<rparr>"

text \<open>
  \<open>Take\<close>: refill from the time elapsed since the last refill, then take a token if there
  is one. It reads the clock and leaves the world as it found it.
\<close>

definition Take :: "TokenBucket \<Rightarrow> world \<Rightarrow> bool \<times> TokenBucket \<times> world" where
  "Take tb w =
     (let now = clock w;
          elapsed = Seconds (now - lastRefill tb);
          tb1 = tb\<lparr>lastRefill := now\<rparr>;
          newTokens = elapsed * fillRate tb1;
          tb2 = (if newTokens > 0
                 then (let tb' = tb1\<lparr>tokens := tokens tb1 + newTokens\<rparr>
                       in if tokens tb' > real_of_int (capacity tb')
                          then tb'\<lparr>tokens := real_of_int (capacity tb')\<rparr> else tb')
                 else tb1)
      in if tokens tb2 \<ge> 1 then (True, tb2\<lparr>tokens := tokens tb2 - 1\<rparr>, w)
         else (False, tb2, w))"

text \<open>
  \<open>TakeWithTimeout\<close>: on a failed \<open>Take\<close>, sleep for the time one token needs (at most
  \<open>waitTimeout\<close>) and call \<open>Take\<close> once more. The wait is converted to a \<open>Duration\<close>
  before it is compared with \<open>waitTimeout\<close>. With \<open>fillRate = 0\<close> Go divides by zero and
  converts an infinity; the definition below converts 0 there, and is the code's only for
  \<open>fillRate \<noteq> 0\<close>.
\<close>

definition TakeWithTimeout :: "TokenBucket \<Rightarrow> world \<Rightarrow> bool \<times> TokenBucket \<times> world" where
  "TakeWithTimeout tb w =
     (case Take tb w of
        (ok, tb1, w1) \<Rightarrow>
          if ok then (True, tb1, w1)
          else (let tokensNeeded = 1 - tokens tb1;
                    timeToWait = float_to_int64 w1 (tokensNeeded / fillRate tb1 * real_of_int Second);
                    timeToWait' = (if timeToWait > waitTimeout tb1 then waitTimeout tb1 else timeToWait)
                in Take tb1 (Sleep timeToWait' w1)))"

text \<open>
  The same two functions in \<open>float64\<close> arithmetic: \<open>rnd\<close> takes the exact result of an
  operation to the \<open>float64\<close> that the operation returns. The constants 1 and 1e9 and the
  fields of the bucket are \<open>float64\<close> values already.
\<close>

definition Take_fl :: "(real \<Rightarrow> real) \<Rightarrow> TokenBucket \<Rightarrow> world \<Rightarrow> bool \<times> TokenBucket \<times> world" where
  "Take_fl rnd tb w =
     (let now = clock w;
          elapsed = Seconds_fl rnd (now - lastRefill tb);
          tb1 = tb\<lparr>lastRefill := now\<rparr>;
          newTokens = rnd (elapsed * fillRate tb1);
          tb2 = (if newTokens > 0
                 then (let tb' = tb1\<lparr>tokens := rnd (tokens tb1 + newTokens)\<rparr>
                       in if tokens tb' > rnd (real_of_int (capacity tb'))
                          then tb'\<lparr>tokens := rnd (real_of_int (capacity tb'))\<rparr> else tb')
                 else tb1)
      in if tokens tb2 \<ge> 1 then (True, tb2\<lparr>tokens := rnd (tokens tb2 - 1)\<rparr>, w)
         else (False, tb2, w))"

definition TakeWithTimeout_fl ::
  "(real \<Rightarrow> real) \<Rightarrow> TokenBucket \<Rightarrow> world \<Rightarrow> bool \<times> TokenBucket \<times> world" where
  "TakeWithTimeout_fl rnd tb w =
     (case Take_fl rnd tb w of
        (ok, tb1, w1) \<Rightarrow>
          if ok then (True, tb1, w1)
          else (let tokensNeeded = rnd (1 - tokens tb1);
                    timeToWait = float_to_int64 w1
                      (rnd (rnd (tokensNeeded / fillRate tb1) * real_of_int Second));
                    timeToWait' = (if timeToWait > waitTimeout tb1 then waitTimeout tb1 else timeToWait)
                in Take_fl rnd tb1 (Sleep timeToWait' w1)))"

text \<open>
  \<open>Update\<close>: the period and the allocation are local constants of the function; none of
  the three arguments is read.
\<close>

definition Update :: "TokenBucket \<Rightarrow> int \<Rightarrow> int \<Rightarrow> int \<Rightarrow> TokenBucket" where
  "Update tb used reset maxRequests =
     (let totalAllocationPeriod = (600::int);
          totalAllocation = (1000::int);
          fullRate = real_of_int totalAllocation / real_of_int totalAllocationPeriod;
          targetRate = fullRate * 0.95
      in tb\<lparr>fillRate := targetRate\<rparr>)"

section \<open>The Reddit client\<close>

definition baseURL :: string where
  "baseURL = ''https://oauth.reddit.com''"

definition authURL :: string where
  "authURL = ''https://www.reddit.com/api/v1/access_token''"

definition defaultLimit :: int where
  "defaultLimit = 100"

text \<open>\<open>models.Post\<close>.\<close>

record Post =
  post_ID :: string
  post_Title :: string
  post_Author :: string
  post_Subreddit :: string
  post_URL :: string
  post_CreatedUTC :: real
  post_CreatedAt :: Time
  post_Upvotes :: int
  post_Downvotes :: int
  post_Score :: int
  post_NumComments :: int
  post_PostHint :: string
  post_IsVideo :: bool
  post_IsSelf :: bool
  post_SelfText :: string
  post_Permalink :: string
  post_ProcessedTime :: Time

text \<open>
  Struct \<open>RedditAPI\<close> without its mutexes, its logger and its HTTP client (the client's
  behaviour is the \<open>pending\<close> list of the world). The limiter is owned by the client
  alone, so it is a field, not a reference.
\<close>

record RedditAPI =
  clientID :: string
  clientSecret :: string
  userAgent :: string
  accessToken :: string
  tokenExpiry :: Time
  rateLimiter :: TokenBucket
  maxRequestsPerMin :: int
  rateRemainingCached :: int
  rateResetCached :: int
  rateUsedCached :: int

text \<open>
  The errors the client builds with \<open>fmt.Errorf\<close>, one constructor for each message,
  carrying what the message is formatted from.
\<close>

datatype error =
    ErrAuthRateLimit
  | ErrCreateAuthRequest
  | ErrExecuteAuthRequest string
  | ErrAuthStatus int string
  | ErrDecodeAuth
  | ErrCreateRequest
  | ErrExecuteRequest string
  | ErrStatus int string
  | ErrDecodeResponse

text \<open>The zero \<open>time.Time\<close> (January 1 of year 1), the expiry of a client that has no token yet.\<close>

definition zeroTime :: Time where
  "zeroTime = - 62135596800 * Second"

definition NewRedditAPI :: "string \<Rightarrow> string \<Rightarrow> string \<Rightarrow> int \<Rightarrow> world \<Rightarrow> RedditAPI" where
  "NewRedditAPI cid secret agent maxRequestsPerMinute w =
     (let maxRequestsPerMinute' = (if maxRequestsPerMinute \<le> 0 then 100 else maxRequestsPerMinute);
          totalAllocation = wrap64 (maxRequestsPerMinute' * 10);
          standardRate = real_of_int totalAllocation / 600.0;
          targetRate = standardRate * 0.95;
          limiter = NewTokenBucket 1 targetRate (30 * Second) w
      in \<lparr>clientID = cid, clientSecret = secret, userAgent = agent,
          accessToken = '''', tokenExpiry = zeroTime,
          rateLimiter = limiter, maxRequestsPerMin = maxRequestsPerMinute',
          rateRemainingCached = 0, rateResetCached = 600, rateUsedCached = 0\<rparr>)"

definition GetRateLimitStatus :: "RedditAPI \<Rightarrow> int \<times> int \<times> int" where
  "GetRateLimitStatus r = (rateRemainingCached r, rateResetCached r, rateUsedCached r)"

subsection \<open>Library functions the client calls\<close>

text \<open>
  These belong to the Go standard library, not to the repository; they are written out as
  far as the client depends on them.

  \<open>http.Header.Get\<close>: the first value stored under the name, or the empty string.
\<close>

definition Header_Get :: "(string \<times> string list) list \<Rightarrow> string \<Rightarrow> string" where
  "Header_Get h name = (case map_of h name of None \<Rightarrow> '''' | Some [] \<Rightarrow> '''' | Some (v # vs) \<Rightarrow> v)"

text \<open>
  \<open>strconv.Atoi\<close>: an optional sign followed by at least one decimal digit, and a value
  that fits 64 bits; anything else is an error (\<open>None\<close>).
\<close>

definition is_digit :: "char \<Rightarrow> bool" where
  "is_digit c = (c \<in> set ''0123456789'')"

definition digit_val :: "char \<Rightarrow> int" where
  "digit_val c = of_char c - 48"

definition Atoi :: "string \<Rightarrow> int option" where
  "Atoi s =
     (let neg = (case s of [] \<Rightarrow> False | c # cs \<Rightarrow> c = CHR ''-'');
          ds = (case s of [] \<Rightarrow> [] | c # cs \<Rightarrow> if c = CHR ''-'' \<or> c = CHR ''+'' then cs else s)
      in if ds = [] \<or> \<not> list_all is_digit ds then None
         else (let n = foldl (\<lambda>acc c. acc * 10 + digit_val c) 0 ds;
                   v = (if neg then - n else n)
               in if - (2 ^ 63) \<le> v \<and> v < 2 ^ 63 then Some v else None))"

text \<open>The verb \<open>%d\<close> of \<open>fmt.Sprintf\<close>.\<close>

fun nat_digits :: "nat \<Rightarrow> string" where
  "nat_digits n =
     (if n < 10 then [''0123456789'' ! n]
      else nat_digits (n div 10) @ [''0123456789'' ! (n mod 10)])"

declare nat_digits.simps [simp del]

definition fmt_d :: "int \<Rightarrow> string" where
  "fmt_d i = (if i < 0 then CHR ''-'' # nat_digits (nat (- i)) else nat_digits (nat i))"

text \<open>
  \<open>httpClient.Do\<close>: the next pending outcome decides what comes back and how long it
  took; the request and its outcome are recorded.
\<close>

definition Do :: "Request \<Rightarrow> world \<Rightarrow> (string + Response) \<times> world" where
  "Do req w =
     (case pending w of
        [] \<Rightarrow> (Inl ''no response'', w\<lparr>trace := trace w @ [Http req (DoFails 0 ''no response'')]\<rparr>)
      | DoFails n msg # rest \<Rightarrow>
          (Inl msg, w\<lparr>clock := clock w + int n, pending := rest,
                      trace := trace w @ [Http req (DoFails n msg)]\<rparr>)
      | Responds n resp # rest \<Rightarrow>
          (Inr resp, w\<lparr>clock := clock w + int n, pending := rest,
                       trace := trace w @ [Http req (Responds n resp)]\<rparr>))"

subsection \<open>Rate headers\<close>

definition getHeaderAsInt :: "(string \<times> string list) list \<Rightarrow> string \<Rightarrow> int" where
  "getHeaderAsInt header name =
     (let v = Header_Get header name
      in if v = '''' then 0
         else (case Atoi v of None \<Rightarrow> 0 | Some intValue \<Rightarrow> intValue))"

definition updateRateLimits :: "RedditAPI \<Rightarrow> Response \<Rightarrow> RedditAPI" where
  "updateRateLimits r resp =
     (let used = getHeaderAsInt (Header resp) ''X-Ratelimit-Used'';
          remaining = getHeaderAsInt (Header resp) ''X-Ratelimit-Remaining'';
          reset = getHeaderAsInt (Header resp) ''X-Ratelimit-Reset''
      in if reset = 0 \<and> used = 0 then r
         else r\<lparr>rateRemainingCached := remaining, rateResetCached := reset,
                rateUsedCached := used,
                rateLimiter := Update (rateLimiter r) used reset (maxRequestsPerMin r)\<rparr>)"

subsection \<open>Authentication\<close>

text \<open>
  \<open>authenticate\<close> returns the error (\<open>None\<close> for \<open>nil\<close>), the client and the world.
\<close>

definition authenticate :: "RedditAPI \<Rightarrow> world \<Rightarrow> error option \<times> RedditAPI \<times> world" where
  "authenticate r w =
     (let token = accessToken r; expiry = tokenExpiry r
      in if token \<noteq> '''' \<and> clock w < expiry then (None, r, w)
         else (case TakeWithTimeout (rateLimiter r) w of
            (ok, tb, w1) \<Rightarrow>
              (let r1 = r\<lparr>rateLimiter := tb\<rparr>
               in if \<not> ok then (Some ErrAuthRateLimit, r1, w1)
                  else if \<not> url_ok w1 authURL then (Some ErrCreateAuthRequest, r1, w1)
                  else (let req = \<lparr>req_method = ''POST'', req_url = authURL,
                                   req_basic_auth = Some (clientID r1, clientSecret r1),
                                   req_header = [(''User-Agent'', userAgent r1),
                                     (''Content-Type'', ''application/x-www-form-urlencoded'')],
                                   req_body = ''grant_type=client_credentials''\<rparr>
                        in case Do req w1 of
                             (Inl msg, w2) \<Rightarrow> (Some (ErrExecuteAuthRequest msg), r1, w2)
                           | (Inr resp, w2) \<Rightarrow>
                               (let r2 = updateRateLimits r1 resp
                                in if StatusCode resp \<noteq> 200
                                   then (Some (ErrAuthStatus (StatusCode resp) (Body resp)), r2, w2)
                                   else (case decode_auth resp of
                                      None \<Rightarrow> (Some ErrDecodeAuth, r2, w2)
                                    | Some authResp \<Rightarrow>
                                        (None,
                                         r2\<lparr>accessToken := AccessToken authResp,
                                            tokenExpiry :=
                                              clock w2 + wrap64 (ExpiresIn authResp * Second)\<rparr>,
                                         w2)))))))"

subsection \<open>Fetching a page\<close>

text \<open>
  \<open>FetchPosts\<close> returns Go's triple (posts, next cursor, error); a \<open>nil\<close> slice is the
  empty list. \<open>toPost\<close> is the body of its loop over the children (the world is there
  for the conversion \<open>int64(CreatedUTC)\<close>), and
  \<open>FetchPosts_request\<close> is the part of \<open>FetchPosts\<close> after the limiter has let the call
  through (from building the endpoint to the final return). \<open>FetchPosts\<close> calls itself
  when the limiter refuses, with nothing that bounds the number of calls, so it is
  defined as a partial function: \<open>None\<close> is a run that never returns.
\<close>

definition toPost :: "world \<Rightarrow> Time \<Rightarrow> RedditPost \<Rightarrow> Post" where
  "toPost w now redditPost =
     \<lparr>post_ID = rp_ID redditPost, post_Title = rp_Title redditPost,
      post_Author = rp_Author redditPost, post_Subreddit = rp_Subreddit redditPost,
      post_URL = rp_URL redditPost, post_CreatedUTC = rp_CreatedUTC redditPost,
      post_CreatedAt = float_to_int64 w (rp_CreatedUTC redditPost) * Second,
      post_Upvotes = rp_Ups redditPost, post_Downvotes = rp_Downs redditPost,
      post_Score = rp_Score redditPost, post_NumComments = rp_NumComments redditPost,
      post_PostHint = rp_PostHint redditPost, post_IsVideo = rp_IsVideo redditPost,
      post_IsSelf = rp_IsSelf redditPost, post_SelfText = rp_SelfText redditPost,
      post_Permalink = rp_Permalink redditPost, post_ProcessedTime = now\<rparr>"

type_synonym fetch_result = "Post list \<times> string \<times> error option"

definition FetchPosts_request ::
  "RedditAPI \<Rightarrow> world \<Rightarrow> string \<Rightarrow> int \<Rightarrow> string \<Rightarrow> fetch_result \<times> RedditAPI \<times> world" where
  "FetchPosts_request r w subreddit limit after =
     (let endpoint = baseURL @ ''/r/'' @ subreddit @ ''/new.json?limit='' @ fmt_d limit;
          endpoint' = (if after \<noteq> '''' then endpoint @ ''&after='' @ after else endpoint)
      in if \<not> url_ok w endpoint' then (([], '''', Some ErrCreateRequest), r, w)
         else (let token = accessToken r;
                   req = \<lparr>req_method = ''GET'', req_url = endpoint', req_basic_auth = None,
                          req_header = [(''Authorization'', ''Bearer '' @ token),
                                        (''User-Agent'', userAgent r)],
                          req_body = ''''\<rparr>
               in case Do req w of
                    (Inl msg, w1) \<Rightarrow> (([], '''', Some (ErrExecuteRequest msg)), r, w1)
                  | (Inr resp, w1) \<Rightarrow>
                      (let r1 = updateRateLimits r resp
                       in if StatusCode resp \<noteq> 200
                          then (([], '''', Some (ErrStatus (StatusCode resp) (Body resp))), r1, w1)
                          else (case decode_listing resp of
                             None \<Rightarrow> (([], '''', Some ErrDecodeResponse), r1, w1)
                           | Some redditResp \<Rightarrow>
                               (let now = clock w1;
                                    posts = map (toPost w1 now) (rr_Children redditResp)
                                in ((posts, rr_After redditResp, None), r1, w1))))))"

partial_function (option) FetchPosts ::
  "RedditAPI \<Rightarrow> world \<Rightarrow> string \<Rightarrow> int \<Rightarrow> string \<Rightarrow> (fetch_result \<times> RedditAPI \<times> world) option" where
  "FetchPosts r w subreddit limit after =
     (case authenticate r w of
        (Some err, r1, w1) \<Rightarrow> Some (([], '''', Some err), r1, w1)
      | (None, r1, w1) \<Rightarrow>
          (let limit' = (if limit \<le> 0 \<or> limit > 100 then defaultLimit else limit)
           in case TakeWithTimeout (rateLimiter r1) w1 of
                (ok, tb, w2) \<Rightarrow>
                  (let r2 = r1\<lparr>rateLimiter := tb\<rparr>
                   in if \<not> ok
                      then FetchPosts r2 (Sleep Second w2) subreddit limit' after
                      else Some (FetchPosts_request r2 w2 subreddit limit' after))))"

declare FetchPosts.simps [code]

section \<open>What the specification says\<close>

text \<open>
  The definitions of this section are not translations of code: they restate the
  specification, or drive the program, so that the two can be compared.
\<close>

subsection \<open>The limiter\<close>








text \<open>
  A sequence of \<open>Take\<close> calls, the \<open>i\<close>-th made \<open>gs ! i\<close> nanoseconds after the one before
  it; the results are collected in order.
\<close>

fun Take_seq :: "nat list \<Rightarrow> TokenBucket \<Rightarrow> world \<Rightarrow> bool list \<times> TokenBucket \<times> world" where
  "Take_seq [] tb w = ([], tb, w)"
| "Take_seq (g # gs) tb w =
     (case Take tb (Elapse g w) of
        (ok, tb1, w1) \<Rightarrow> (case Take_seq gs tb1 w1 of (oks, tb2, w2) \<Rightarrow> (ok # oks, tb2, w2)))"


text \<open>The same sequence of calls in \<open>float64\<close> arithmetic.\<close>

fun Take_fl_seq ::
  "(real \<Rightarrow> real) \<Rightarrow> nat list \<Rightarrow> TokenBucket \<Rightarrow> world \<Rightarrow> bool list \<times> TokenBucket \<times> world" where
  "Take_fl_seq rnd [] tb w = ([], tb, w)"
| "Take_fl_seq rnd (g # gs) tb w =
     (case Take_fl rnd tb (Elapse g w) of
        (ok, tb1, w1) \<Rightarrow>
          (case Take_fl_seq rnd gs tb1 w1 of (oks, tb2, w2) \<Rightarrow> (ok # oks, tb2, w2)))"



subsection \<open>The fetcher\<close>

text \<open>The page size a request carries: the limit, or 100 when the limit is out of range.\<close>

definition spec_limit :: "int \<Rightarrow> int" where
  "spec_limit limit = (if limit \<le> 0 \<or> limit > 100 then 100 else limit)"

text \<open>The URL of a page request; an empty cursor adds no pagination parameter.\<close>

definition spec_endpoint :: "string \<Rightarrow> int \<Rightarrow> string \<Rightarrow> string" where
  "spec_endpoint subreddit limit after =
     ''https://oauth.reddit.com/r/'' @ subreddit @ ''/new.json?limit='' @ fmt_d (spec_limit limit) @
     (if after = '''' then '''' else ''&after='' @ after)"

text \<open>A response that is not a success, or whose body does not decode as a listing.\<close>

definition bad_response :: "Response \<Rightarrow> bool" where
  "bad_response resp = (StatusCode resp \<noteq> 200 \<or> decode_listing resp = None)"

text \<open>The typed error that answers such a response.\<close>

definition fetch_error :: "Response \<Rightarrow> error" where
  "fetch_error resp =
     (if StatusCode resp \<noteq> 200 then ErrStatus (StatusCode resp) (Body resp) else ErrDecodeResponse)"

text \<open>Reading the trace: the page requests (GET) and their URLs, and what a run added.\<close>

fun is_GET :: "event \<Rightarrow> bool" where
  "is_GET (Slept d) = False"
| "is_GET (Http req out) = (req_method req = ''GET'')"

fun event_url :: "event \<Rightarrow> string" where
  "event_url (Slept d) = ''''"
| "event_url (Http req out) = req_url req"

definition new_events :: "world \<Rightarrow> world \<Rightarrow> event list" where
  "new_events w w' = drop (length (trace w)) (trace w')"

text \<open>
  The page requests of one call of \<open>FetchPosts\<close>: none, and then the call ended in an
  error; or exactly one, to the URL above, and a bad response to it is answered by the
  typed error with no posts and no cursor.
\<close>

fun get_ok :: "string \<Rightarrow> int \<Rightarrow> string \<Rightarrow> fetch_result \<Rightarrow> event list \<Rightarrow> bool" where
  "get_ok subreddit limit after res [] = (snd (snd res) \<noteq> None)"
| "get_ok subreddit limit after res [Http req (Responds n resp)] =
     (req_url req = spec_endpoint subreddit limit after \<and>
      (bad_response resp \<longrightarrow> res = ([], '''', Some (fetch_error resp))))"
| "get_ok subreddit limit after res [Http req (DoFails n msg)] =
     (req_url req = spec_endpoint subreddit limit after)"
| "get_ok subreddit limit after res gs = False"

subsection \<open>Concrete runs\<close>

text \<open>A world at time 0 in which no HTTP call is answered, and one two seconds later.\<close>

definition w_0 :: world where
  "w_0 = \<lparr>clock = 0, pending = [], url_ok = (\<lambda>u. True),
     huge_to_int64 = amd64_huge, trace = []\<rparr>"


text \<open>
  The bucket of the specification's end-to-end scenario (capacity 1, one token a second,
  one seed token), and an empty bucket that gains two tokens a second.
\<close>

definition tb_seed :: TokenBucket where
  "tb_seed = NewTokenBucket 1 1 (30 * Second) w_0"



text \<open>
  A client configured for one request a minute, and a token exchange that is answered
  with a token valid for ten seconds and without rate headers.
\<close>

definition auth_ok :: Response where
  "auth_ok = \<lparr>StatusCode = 200, Header = [], Body = '''',
     decode_auth = Some \<lparr>AccessToken = ''t'', ExpiresIn = 10, TokenType = ''bearer''\<rparr>,
     decode_listing = None\<rparr>"

definition w_retry :: world where
  "w_retry = \<lparr>clock = 0, pending = [Responds 0 auth_ok], url_ok = (\<lambda>u. True),
     huge_to_int64 = amd64_huge, trace = []\<rparr>"

definition api_retry :: RedditAPI where
  "api_retry = NewRedditAPI ''id'' ''secret'' ''agent'' 1 w_retry"

definition auth_request :: Request where
  "auth_request = \<lparr>req_method = ''POST'', req_url = authURL,
     req_basic_auth = Some (''id'', ''secret''),
     req_header = [(''User-Agent'', ''agent''),
                   (''Content-Type'', ''application/x-www-form-urlencoded'')],
     req_body = ''grant_type=client_credentials''\<rparr>"

text \<open>The client and the world after that exchange, and after the limiter's wait of 30 s.\<close>

definition api_retry1 :: RedditAPI where
  "api_retry1 = api_retry\<lparr>accessToken := ''t'', tokenExpiry := 10000000000,
     rateLimiter := (rateLimiter api_retry)\<lparr>tokens := 0\<rparr>\<rparr>"

definition w_retry1 :: world where
  "w_retry1 = w_retry\<lparr>pending := [], trace := [Http auth_request (Responds 0 auth_ok)]\<rparr>"

definition tb_retry2 :: TokenBucket where
  "tb_retry2 = (rateLimiter api_retry)\<lparr>tokens := 19 / 40, lastRefill := 30000000000\<rparr>"

definition w_retry2 :: world where
  "w_retry2 = w_retry1\<lparr>clock := 30000000000,
     trace := [Http auth_request (Responds 0 auth_ok), Slept 30000000000]\<rparr>"

text \<open>A client that holds a token and a full bucket, and a server that answers 500.\<close>

definition api_ready :: RedditAPI where
  "api_ready = \<lparr>clientID = ''id'', clientSecret = ''secret'', userAgent = ''agent'',
     accessToken = ''t'', tokenExpiry = 86400000000000,
     rateLimiter = \<lparr>capacity = 1, tokens = 1, fillRate = 19 / 12, lastRefill = 0,
                     waitTimeout = 30000000000\<rparr>,
     maxRequestsPerMin = 100, rateRemainingCached = 0, rateResetCached = 600,
     rateUsedCached = 0\<rparr>"

definition resp_500 :: Response where
  "resp_500 = \<lparr>StatusCode = 500, Header = [], Body = ''oops'', decode_auth = None,
     decode_listing = None\<rparr>"

definition w_500 :: world where
  "w_500 = \<lparr>clock = 0, pending = [Responds 0 resp_500], url_ok = (\<lambda>u. True),
     huge_to_int64 = amd64_huge, trace = []\<rparr>"

definition get_request :: Request where
  "get_request = \<lparr>req_method = ''GET'',
     req_url = ''https://oauth.reddit.com/r/golang/new.json?limit=100'',
     req_basic_auth = None,
     req_header = [(''Authorization'', ''Bearer t''), (''User-Agent'', ''agent'')],
     req_body = ''''\<rparr>"

text \<open>A response whose usage header is not a number and whose reset header is absent.\<close>

definition resp_malformed :: Response where
  "resp_malformed = \<lparr>StatusCode = 200,
     Header = [(''X-Ratelimit-Used'', [''not-a-number'']), (''X-Ratelimit-Remaining'', [''7''])],
     Body = '''', decode_auth = None, decode_listing = None\<rparr>"

section \<open>The limiter: lemmas\<close>

lemma Take_frame:
  "capacity (fst (snd (Take tb w))) = capacity tb \<and>
   fillRate (fst (snd (Take tb w))) = fillRate tb \<and>
   lastRefill (fst (snd (Take tb w))) = clock w \<and>
   snd (snd (Take tb w)) = w"
  by (simp add: Take_def Let_def)

lemma Take_world: "snd (snd (Take tb w)) = w"
  by (simp add: Take_frame)


text \<open>\<open>TakeWithTimeout\<close> is one call of \<open>Take\<close>, or two with a sleep in between.\<close>

lemma TakeWithTimeout_cases:
  "(fst (Take tb w) \<and> TakeWithTimeout tb w = Take tb w) \<or>
   (\<not> fst (Take tb w) \<and>
    (\<exists>d. TakeWithTimeout tb w = Take (fst (snd (Take tb w))) (Sleep d w)))"
proof (cases "Take tb w")
  case (fields ok tb1 w1)
  then have "w1 = w" using Take_world [of tb w] by simp
  with fields show ?thesis
    by (auto simp: TakeWithTimeout_def Let_def)
qed





subsection \<open>Exact arithmetic as an instance of \<open>float64\<close> arithmetic\<close>

lemma Seconds_fl_exact: "Seconds_fl (\<lambda>x. x) d = Seconds d"
  by (simp add: Seconds_fl_def Seconds_def tmod_def Second_def field_simps)

lemma Take_fl_exact: "Take_fl (\<lambda>x. x) tb w = Take tb w"
  by (simp add: Take_fl_def Take_def Seconds_fl_exact)

lemma TakeWithTimeout_fl_exact: "TakeWithTimeout_fl (\<lambda>x. x) tb w = TakeWithTimeout tb w"
  by (simp add: TakeWithTimeout_fl_def TakeWithTimeout_def Take_fl_exact Let_def
      split: prod.splits)

lemma Take_fl_seq_exact: "Take_fl_seq (\<lambda>x. x) gs tb w = Take_seq gs tb w"
  by (induction gs arbitrary: tb w) (simp_all add: Take_fl_exact)


subsection \<open>\<open>Take\<close> in \<open>float64\<close> arithmetic\<close>
















section \<open>The limiter: claims\<close>

text \<open>
  Claim C1, as the code has it. \<open>Update\<close> sets \<open>fillRate\<close> to \<open>(1000 / 600) * 0.95\<close> and
  changes nothing else, whatever its three arguments are: the result depends neither on
  \<open>used\<close> and \<open>reset\<close> nor on the third argument. In particular \<open>Update(200, 400, 1000)\<close>
  yields \<open>(1000 / 600) * 0.95\<close>.
\<close>

theorem Update_fillRate_fixed:
  "Update tb used reset maxRequests = tb\<lparr>fillRate := (1000 / 600) * 0.95\<rparr>"
  by (simp add: Update_def)

text \<open>
  Claim C1 as stated reads the rate off the third argument,
  \<open>(total / 600) * 0.95\<close>. With a total of 500 the code still yields
  \<open>(1000 / 600) * 0.95\<close>.
\<close>

theorem Update_ignores_total_counterexample:
  "fillRate (Update tb_seed 200 400 500) \<noteq> (real_of_int 500 / 600) * 0.95"
  by (simp add: Update_def)











section \<open>The client: lemmas\<close>

subsection \<open>What each step does to the world\<close>

text \<open>The limiter sleeps at most once and does nothing else to the world.\<close>

lemma TakeWithTimeout_world:
  assumes "TakeWithTimeout tb w = (ok, tb', w')"
  shows "pending w' = pending w \<and> url_ok w' = url_ok w \<and>
         huge_to_int64 w' = huge_to_int64 w \<and> clock w \<le> clock w' \<and>
         (\<exists>es. trace w' = trace w @ es \<and> filter is_GET es = [])"
proof -
  from TakeWithTimeout_cases [of tb w] assms consider
    "w' = w" | d where "w' = Sleep d w"
    using Take_world [of tb w] Take_world [of "fst (snd (Take tb w))"]
    by (metis snd_conv)
  then show ?thesis by cases (simp_all add: Sleep_def)
qed

lemma Do_world:
  assumes "Do req w = (x, w')"
  shows "url_ok w' = url_ok w \<and> clock w \<le> clock w' \<and>
         (\<exists>out. trace w' = trace w @ [Http req out] \<and>
            (case x of
               Inl msg \<Rightarrow> \<exists>n. out = DoFails n msg
             | Inr resp \<Rightarrow> (\<exists>n. out = Responds n resp) \<and>
                          length (pending w') < length (pending w)))"
  using assms by (auto simp: Do_def split: list.splits outcome.splits)

text \<open>Authentication sends no page request.\<close>

lemma authenticate_world:
  assumes "authenticate r w = (e, r1, w1)"
  shows "url_ok w1 = url_ok w \<and> clock w \<le> clock w1 \<and>
         (\<exists>es. trace w1 = trace w @ es \<and> filter is_GET es = [])"
proof (cases "accessToken r \<noteq> '''' \<and> clock w < tokenExpiry r")
  case True
  with assms show ?thesis by (simp add: authenticate_def)
next
  case expired: False
  obtain ok tb w2 where twt: "TakeWithTimeout (rateLimiter r) w = (ok, tb, w2)"
    by (cases "TakeWithTimeout (rateLimiter r) w") auto
  note tw = TakeWithTimeout_world [OF twt]
  show ?thesis
  proof (cases "ok \<and> url_ok w2 authURL")
    case False
    with expired assms twt have "w1 = w2"
      by (auto simp: authenticate_def Let_def split: if_splits)
    with tw show ?thesis by simp
  next
    case True
    define req where "req = \<lparr>req_method = ''POST'', req_url = authURL,
       req_basic_auth = Some (clientID r, clientSecret r),
       req_header = [(''User-Agent'', userAgent r),
                     (''Content-Type'', ''application/x-www-form-urlencoded'')],
       req_body = ''grant_type=client_credentials''\<rparr>"
    obtain x w3 where d: "Do req w2 = (x, w3)" by (cases "Do req w2") auto
    from True expired assms twt d have "w1 = w3"
      by (auto simp: authenticate_def Let_def req_def split: if_splits sum.splits option.splits)
    moreover from Do_world [OF d] obtain out where
      "url_ok w3 = url_ok w2" "clock w2 \<le> clock w3" "trace w3 = trace w2 @ [Http req out]"
      by blast
    moreover from tw obtain es where "trace w2 = trace w @ es" "filter is_GET es = []" by blast
    ultimately show ?thesis using tw by (simp add: req_def)
  qed
qed

text \<open>
  Authentication succeeds either on the cached token, touching nothing, or by using up a
  pending response.
\<close>

lemma authenticate_progress:
  assumes "authenticate r w = (None, r1, w1)"
  shows "(r1 = r \<and> w1 = w \<and> accessToken r \<noteq> '''' \<and> clock w < tokenExpiry r) \<or>
         length (pending w1) < length (pending w)"
proof (cases "accessToken r \<noteq> '''' \<and> clock w < tokenExpiry r")
  case True
  with assms show ?thesis by (simp add: authenticate_def)
next
  case False
  obtain ok tb w2 where twt: "TakeWithTimeout (rateLimiter r) w = (ok, tb, w2)"
    by (cases "TakeWithTimeout (rateLimiter r) w") auto
  note tw = TakeWithTimeout_world [OF twt]
  define req where "req = \<lparr>req_method = ''POST'', req_url = authURL,
       req_basic_auth = Some (clientID r, clientSecret r),
       req_header = [(''User-Agent'', userAgent r),
                     (''Content-Type'', ''application/x-www-form-urlencoded'')],
       req_body = ''grant_type=client_credentials''\<rparr>"
  obtain x w3 where d: "Do req w2 = (x, w3)" by (cases "Do req w2") auto
  from False assms twt d have "w1 = w3 \<and> (\<exists>resp. x = Inr resp)"
    by (auto simp: authenticate_def Let_def req_def split: if_splits sum.splits option.splits)
  with Do_world [OF d] tw show ?thesis by auto
qed

subsection \<open>The page request\<close>

lemma limit_clamp_eq:
  "(if limit \<le> 0 \<or> 100 < limit then defaultLimit else limit) = spec_limit limit"
  by (simp add: spec_limit_def defaultLimit_def)

lemma spec_limit_idem: "spec_limit (spec_limit limit) = spec_limit limit"
  by (simp add: spec_limit_def)

lemma spec_endpoint_idem:
  "spec_endpoint subreddit (spec_limit limit) after = spec_endpoint subreddit limit after"
  by (simp add: spec_endpoint_def spec_limit_idem)

lemma endpoint_eq:
  "(if after \<noteq> ''''
    then (baseURL @ ''/r/'' @ subreddit @ ''/new.json?limit='' @ fmt_d (spec_limit limit)) @
         ''&after='' @ after
    else baseURL @ ''/r/'' @ subreddit @ ''/new.json?limit='' @ fmt_d (spec_limit limit)) =
   spec_endpoint subreddit limit after"
  by (simp add: spec_endpoint_def baseURL_def)

lemma FetchPosts_request_unfold:
  "FetchPosts_request r w subreddit (spec_limit limit) after =
     (if \<not> url_ok w (spec_endpoint subreddit limit after) then (([], '''', Some ErrCreateRequest), r, w)
      else (case Do \<lparr>req_method = ''GET'', req_url = spec_endpoint subreddit limit after,
                      req_basic_auth = None,
                      req_header = [(''Authorization'', ''Bearer '' @ accessToken r),
                                    (''User-Agent'', userAgent r)],
                      req_body = ''''\<rparr> w of
              (Inl msg, w1) \<Rightarrow> (([], '''', Some (ErrExecuteRequest msg)), r, w1)
            | (Inr resp, w1) \<Rightarrow>
                (if StatusCode resp \<noteq> 200
                 then (([], '''', Some (ErrStatus (StatusCode resp) (Body resp))),
                       updateRateLimits r resp, w1)
                 else (case decode_listing resp of
                    None \<Rightarrow> (([], '''', Some ErrDecodeResponse), updateRateLimits r resp, w1)
                  | Some redditResp \<Rightarrow>
                      ((map (toPost w1 (clock w1)) (rr_Children redditResp), rr_After redditResp, None),
                       updateRateLimits r resp, w1)))))"
  unfolding FetchPosts_request_def Let_def endpoint_eq ..

lemma get_ok_idem:
  "get_ok subreddit (spec_limit limit) after res gs = get_ok subreddit limit after res gs"
  by (induction subreddit limit after res gs rule: get_ok.induct)
     (simp_all add: spec_endpoint_idem)

lemma get_ok_member:
  assumes "get_ok subreddit limit after res gs" "e \<in> set gs"
  shows "gs = [e] \<and> event_url e = spec_endpoint subreddit limit after \<and>
         (\<forall>req n resp. e = Http req (Responds n resp) \<longrightarrow> bad_response resp \<longrightarrow>
            res = ([], '''', Some (fetch_error resp)))"
  using assms
  by (induction subreddit limit after res gs rule: get_ok.induct) auto

lemma get_ok_length:
  assumes "get_ok subreddit limit after res gs"
  shows "length gs \<le> 1 \<and> (snd (snd res) = None \<longrightarrow> length gs = 1)"
  using assms
  by (induction subreddit limit after res gs rule: get_ok.induct) auto

lemma FetchPosts_request_world:
  assumes "FetchPosts_request r w subreddit (spec_limit limit) after = (res, r1, w1)"
  shows "\<exists>es. trace w1 = trace w @ es \<and> get_ok subreddit limit after res (filter is_GET es)"
proof (cases "url_ok w (spec_endpoint subreddit limit after)")
  case False
  with assms have "w1 = w \<and> res = ([], '''', Some ErrCreateRequest)"
    by (auto simp add: FetchPosts_request_unfold)
  then show ?thesis by simp
next
  case True
  define req where "req = \<lparr>req_method = ''GET'', req_url = spec_endpoint subreddit limit after,
      req_basic_auth = None,
      req_header = [(''Authorization'', ''Bearer '' @ accessToken r), (''User-Agent'', userAgent r)],
      req_body = ''''\<rparr>"
  obtain x w2 where d: "Do req w = (x, w2)" by (cases "Do req w") auto
  from Do_world [OF d] obtain out where
    tr: "trace w2 = trace w @ [Http req out]" and
    out: "case x of
            Inl msg \<Rightarrow> \<exists>n. out = DoFails n msg
          | Inr resp \<Rightarrow> (\<exists>n. out = Responds n resp) \<and> length (pending w2) < length (pending w)"
    by blast
  have unfold: "FetchPosts_request r w subreddit (spec_limit limit) after =
      (case x of
         Inl msg \<Rightarrow> (([], '''', Some (ErrExecuteRequest msg)), r, w2)
       | Inr resp \<Rightarrow>
           (if StatusCode resp \<noteq> 200
            then (([], '''', Some (ErrStatus (StatusCode resp) (Body resp))), updateRateLimits r resp, w2)
            else (case decode_listing resp of
               None \<Rightarrow> (([], '''', Some ErrDecodeResponse), updateRateLimits r resp, w2)
             | Some redditResp \<Rightarrow>
                 ((map (toPost w2 (clock w2)) (rr_Children redditResp), rr_After redditResp, None),
                  updateRateLimits r resp, w2))))"
    using True d
    by (simp add: FetchPosts_request_unfold req_def split: sum.splits)
  have w1: "w1 = w2"
    using assms unfolding unfold by (auto split: sum.splits option.splits if_splits)
  have "get_ok subreddit limit after res [Http req out]"
  proof (cases x)
    case (Inl msg)
    with out show ?thesis by (auto simp: req_def)
  next
    case (Inr resp)
    with out obtain n where o: "out = Responds n resp" by auto
    have "bad_response resp \<Longrightarrow> res = ([], '''', Some (fetch_error resp))"
      using assms Inr unfolding unfold
      by (auto simp: bad_response_def fetch_error_def split: option.splits if_splits)
    with o show ?thesis by (simp add: req_def)
  qed
  with tr w1 show ?thesis by (simp add: req_def)
qed

subsection \<open>The three ways through \<open>FetchPosts\<close>\<close>

lemma FetchPosts_auth_error:
  assumes "authenticate r w = (Some err, r1, w1)"
  shows "FetchPosts r w subreddit limit after = Some (([], '''', Some err), r1, w1)"
  using assms by (subst FetchPosts.simps) simp

lemma FetchPosts_gate_failure:
  assumes "authenticate r w = (None, r1, w1)"
    and "TakeWithTimeout (rateLimiter r1) w1 = (False, tb, w2)"
  shows "FetchPosts r w subreddit limit after =
         FetchPosts (r1\<lparr>rateLimiter := tb\<rparr>) (Sleep Second w2) subreddit (spec_limit limit) after"
  using assms by (subst FetchPosts.simps) (simp add: Let_def limit_clamp_eq)

lemma FetchPosts_gate_open:
  assumes "authenticate r w = (None, r1, w1)"
    and "TakeWithTimeout (rateLimiter r1) w1 = (True, tb, w2)"
  shows "FetchPosts r w subreddit limit after =
         Some (FetchPosts_request (r1\<lparr>rateLimiter := tb\<rparr>) w2 subreddit (spec_limit limit) after)"
  using assms by (subst FetchPosts.simps) (simp add: Let_def limit_clamp_eq)

text \<open>
  Whatever a call of \<open>FetchPosts\<close> returns, it has added to the trace at most one page
  request, of the shape \<open>get_ok\<close> describes. The proof is by induction over the
  recursion of the partial function.
\<close>

lemma FetchPosts_trace:
  assumes "FetchPosts r w subreddit limit after = Some y"
  shows "\<exists>es. trace (snd (snd y)) = trace w @ es \<and>
              get_ok subreddit limit after (fst y) (filter is_GET es)"
proof (rule FetchPosts.raw_induct [OF _ assms], goal_cases)
  case (1 FetchPosts r w subreddit limit after y)
  obtain e r1 w1 where a: "authenticate r w = (e, r1, w1)"
    by (cases "authenticate r w") auto
  from authenticate_world [OF a] obtain es1 where
    es1: "trace w1 = trace w @ es1" "filter is_GET es1 = []" by blast
  show ?case
  proof (cases e)
    case (Some err)
    with 1(2) a have "y = (([], '''', Some err), r1, w1)" by simp
    with es1 show ?thesis by simp
  next
    case None
    obtain ok tb w2 where t: "TakeWithTimeout (rateLimiter r1) w1 = (ok, tb, w2)"
      by (cases "TakeWithTimeout (rateLimiter r1) w1") auto
    from TakeWithTimeout_world [OF t] obtain es2 where
      es2: "trace w2 = trace w1 @ es2" "filter is_GET es2 = []" by blast
    show ?thesis
    proof (cases ok)
      case False
      with 1(2) a None t have
        "FetchPosts (r1\<lparr>rateLimiter := tb\<rparr>) (Sleep Second w2) subreddit (spec_limit limit) after = Some y"
        by (simp add: Let_def limit_clamp_eq)
      from 1(1) [OF this] obtain es3 where
        es3: "trace (snd (snd y)) = trace (Sleep Second w2) @ es3"
             "get_ok subreddit (spec_limit limit) after (fst y) (filter is_GET es3)" by blast
      from es3(1) es2(1) es1(1) have
        "trace (snd (snd y)) = trace w @ (es1 @ es2 @ [Slept Second] @ es3)"
        by (simp add: Sleep_def)
      moreover have "filter is_GET (es1 @ es2 @ [Slept Second] @ es3) = filter is_GET es3"
        using es1(2) es2(2) by simp
      moreover from es3(2) have "get_ok subreddit limit after (fst y) (filter is_GET es3)"
        by (simp add: get_ok_idem)
      ultimately show ?thesis by metis
    next
      case True
      with 1(2) a None t have
        y: "FetchPosts_request (r1\<lparr>rateLimiter := tb\<rparr>) w2 subreddit (spec_limit limit) after = y"
        by (simp add: Let_def limit_clamp_eq)
      obtain res r3 w3 where yy: "y = (res, r3, w3)" by (cases y) auto
      from FetchPosts_request_world [OF y [unfolded yy]] obtain es3 where
        es3: "trace w3 = trace w2 @ es3" "get_ok subreddit limit after res (filter is_GET es3)"
        by blast
      from es3(1) es2(1) es1(1) have "trace w3 = trace w @ (es1 @ es2 @ es3)" by simp
      moreover have "filter is_GET (es1 @ es2 @ es3) = filter is_GET es3"
        using es1(2) es2(2) by simp
      ultimately show ?thesis using es3(2) yy by (metis fst_conv snd_conv)
    qed
  qed
qed

text \<open>
  Every call returns. A retry is made only after the limiter refused, and by then either
  the authentication has used up a pending response, or the cached token was still valid
  and the clock has moved at least a second towards its expiry.
\<close>

lemma FetchPosts_returns_aux:
  assumes "length (pending w) = n" "nat (tokenExpiry r - clock w) = k"
  shows "\<exists>y. FetchPosts r w subreddit limit after = Some y"
  using assms
proof (induction n arbitrary: k r w limit rule: less_induct)
  case (less n)
  note outer = less.IH
  from less.prems show ?case
  proof (induction k arbitrary: r w limit rule: less_induct)
    case (less k)
    obtain e r1 w1 where a: "authenticate r w = (e, r1, w1)"
      by (cases "authenticate r w") auto
    show ?case
    proof (cases e)
      case (Some err)
      with a show ?thesis by (simp add: FetchPosts_auth_error)
    next
      case None
      obtain ok tb w2 where t: "TakeWithTimeout (rateLimiter r1) w1 = (ok, tb, w2)"
        by (cases "TakeWithTimeout (rateLimiter r1) w1") auto
      show ?thesis
      proof (cases ok)
        case True
        with a None t have "authenticate r w = (None, r1, w1)"
          "TakeWithTimeout (rateLimiter r1) w1 = (True, tb, w2)" by simp_all
        from FetchPosts_gate_open [OF this] show ?thesis by blast
      next
        case False
        define r2 where "r2 = r1\<lparr>rateLimiter := tb\<rparr>"
        define w3 where "w3 = Sleep Second w2"
        from TakeWithTimeout_world [OF t] have
          p: "pending w2 = pending w1" and c: "clock w1 \<le> clock w2" by simp_all
        have "\<exists>y. FetchPosts r2 w3 subreddit (spec_limit limit) after = Some y"
        proof (cases "length (pending w1) < length (pending w)")
          case True
          with p less.prems(1) have "length (pending w3) < n" by (simp add: w3_def Sleep_def)
          from outer [OF this refl refl] show ?thesis .
        next
          case False
          with authenticate_progress [OF a [unfolded None]] have
            same: "r1 = r" "w1 = w" "clock w < tokenExpiry r" by auto
          with c have "nat (tokenExpiry r2 - clock w3) < nat (tokenExpiry r - clock w)"
            by (simp add: r2_def w3_def Sleep_def Second_def)
          moreover from same p less.prems(1) have "length (pending w3) = n"
            by (simp add: w3_def Sleep_def)
          ultimately show ?thesis using less.IH less.prems(2) by blast
        qed
        moreover from a None t False have "FetchPosts r w subreddit limit after =
            FetchPosts r2 w3 subreddit (spec_limit limit) after"
          unfolding r2_def w3_def by (simp add: FetchPosts_gate_failure)
        ultimately show ?thesis by simp
      qed
    qed
  qed
qed

lemma FetchPosts_returns: "\<exists>y. FetchPosts r w subreddit limit after = Some y"
  using FetchPosts_returns_aux [OF refl refl] .

subsection \<open>Concrete runs\<close>

lemmas eval_defs = NewRedditAPI_def NewTokenBucket_def authenticate_def TakeWithTimeout_def
  Take_def Sleep_def Do_def updateRateLimits_def getHeaderAsInt_def Header_Get_def
  Seconds_def Second_def float_to_int_def float_to_int64_def fits_int64_def wrap64_def
  zeroTime_def Let_def

text \<open>
  The client for one request a minute: the token exchange takes the seed token; the
  limiter then waits its 30 s and still has less than one token; after the flat second
  the token has expired, and the limiter refuses the second exchange as well.
\<close>

lemma auth_retry: "authenticate api_retry w_retry = (None, api_retry1, w_retry1)"
  by (simp add: api_retry1_def w_retry1_def auth_request_def api_retry_def w_retry_def auth_ok_def
      eval_defs)

lemma gate_retry: "TakeWithTimeout (rateLimiter api_retry1) w_retry1 = (False, tb_retry2, w_retry2)"
  by (simp add: tb_retry2_def w_retry2_def api_retry1_def w_retry1_def api_retry_def w_retry_def
      eval_defs)

lemma auth_retry2:
  "fst (authenticate (api_retry1\<lparr>rateLimiter := tb_retry2\<rparr>) (Sleep Second w_retry2)) =
     Some ErrAuthRateLimit"
  by (simp add: tb_retry2_def w_retry2_def api_retry1_def w_retry1_def api_retry_def w_retry_def
      eval_defs)

text \<open>The client that holds a token, against the server that answers 500.\<close>

lemma fmt_d_100: "fmt_d 100 = ''100''"
  by (simp add: fmt_d_def nat_digits.simps)

lemma endpoint_golang:
  "spec_endpoint ''golang'' 0 '''' = ''https://oauth.reddit.com/r/golang/new.json?limit=100''"
  by (simp add: spec_endpoint_def spec_limit_def fmt_d_100)

lemma fetch_500:
  "FetchPosts api_ready w_500 ''golang'' 0 '''' =
     Some (([], '''', Some (ErrStatus 500 ''oops'')),
           api_ready\<lparr>rateLimiter := (rateLimiter api_ready)\<lparr>tokens := 0\<rparr>\<rparr>,
           w_500\<lparr>pending := [], trace := [Http get_request (Responds 0 resp_500)]\<rparr>)"
proof -
  have a: "authenticate api_ready w_500 = (None, api_ready, w_500)"
    by (simp add: authenticate_def api_ready_def w_500_def)
  have t: "TakeWithTimeout (rateLimiter api_ready) w_500 =
           (True, (rateLimiter api_ready)\<lparr>tokens := 0\<rparr>, w_500)"
    by (simp add: api_ready_def w_500_def eval_defs)
  show ?thesis
    unfolding FetchPosts_gate_open [OF a t] FetchPosts_request_unfold endpoint_golang
    by (simp add: api_ready_def w_500_def resp_500_def get_request_def eval_defs)
qed

lemma Atoi_not_a_number: "Atoi ''not-a-number'' = None"
  by (simp add: Atoi_def is_digit_def)


section \<open>The client: claims\<close>

text \<open>
  Claim C6, as the code has it. When authentication has succeeded and \<open>FetchPosts\<close> then
  fails to get a token from \<open>TakeWithTimeout\<close>, it sleeps a flat second and calls itself
  again with the same subreddit and cursor and the clamped limit, so the whole fetch is
  run again, authentication included, and whatever that call produces is the result.
  The refusal itself produces no error, and nothing in the fetcher counts the retries or
  looks at a cancellation signal. The call that is made again can end in the rate-limit
  error of \<open>authenticate\<close>.
\<close>

theorem FetchPosts_retries_after_gate_failure:
  assumes "authenticate r w = (None, r1, w1)"
    and "TakeWithTimeout (rateLimiter r1) w1 = (False, tb, w2)"
  shows "FetchPosts r w subreddit limit after =
         FetchPosts (r1\<lparr>rateLimiter := tb\<rparr>)
           (w2\<lparr>clock := clock w2 + 1000000000, trace := trace w2 @ [Slept 1000000000]\<rparr>)
           subreddit (if limit \<le> 0 \<or> limit > 100 then 100 else limit) after"
  using FetchPosts_gate_failure [OF assms] by (simp add: Sleep_def Second_def spec_limit_def)

text \<open>
  Witness for C6: the client for one request a minute, whose first fetch authenticates
  and is then refused by the limiter.
\<close>

theorem FetchPosts_retries_after_gate_failure_witness:
  "authenticate api_retry w_retry = (None, api_retry1, w_retry1) \<and>
   TakeWithTimeout (rateLimiter api_retry1) w_retry1 = (False, tb_retry2, w_retry2) \<and>
   FetchPosts api_retry w_retry ''golang'' 0 '''' =
     FetchPosts (api_retry1\<lparr>rateLimiter := tb_retry2\<rparr>)
       (w_retry2\<lparr>clock := clock w_retry2 + 1000000000,
                 trace := trace w_retry2 @ [Slept 1000000000]\<rparr>) ''golang'' 100 ''''"
  using FetchPosts_retries_after_gate_failure [OF auth_retry gate_retry, of "''golang''" 0 "''''"]
    auth_retry gate_retry
  by simp

text \<open>
  Claim C6 as stated says that the fetch never returns an error for an exhausted rate
  budget. In the run below authentication succeeds, the limiter refuses the fetch, and
  the retry finds the token expired; the limiter refuses the new token exchange too, and
  \<open>FetchPosts\<close> returns the error "rate limit exceeded during authentication attempt".
\<close>

theorem FetchPosts_rate_limit_error_counterexample:
  "fst (authenticate api_retry w_retry) = None \<and>
   \<not> fst (TakeWithTimeout (rateLimiter (fst (snd (authenticate api_retry w_retry))))
            (snd (snd (authenticate api_retry w_retry)))) \<and>
   map_option fst (FetchPosts api_retry w_retry ''golang'' 25 '''') =
     Some ([], '''', Some ErrAuthRateLimit)"
proof -
  obtain e r w where
    a: "authenticate (api_retry1\<lparr>rateLimiter := tb_retry2\<rparr>) (Sleep Second w_retry2) = (e, r, w)"
    by (cases "authenticate (api_retry1\<lparr>rateLimiter := tb_retry2\<rparr>) (Sleep Second w_retry2)") auto
  with auth_retry2 have e: "e = Some ErrAuthRateLimit" by simp
  have "FetchPosts api_retry w_retry ''golang'' 25 '''' =
        FetchPosts (api_retry1\<lparr>rateLimiter := tb_retry2\<rparr>) (Sleep Second w_retry2) ''golang''
          (spec_limit 25) ''''"
    by (rule FetchPosts_gate_failure [OF auth_retry gate_retry])
  also have "\<dots> = Some (([], '''', Some ErrAuthRateLimit), r, w)"
    by (rule FetchPosts_auth_error [OF a [unfolded e]])
  finally show ?thesis by (simp add: auth_retry gate_retry)
qed

text \<open>
  Claim C7. Every call \<open>FetchPosts(subreddit, limit, after)\<close> returns, and every page
  request it has sent went to the URL with \<open>limit=100\<close> if \<open>limit \<le> 0\<close> or
  \<open>limit > 100\<close> and with the limit itself otherwise, and with no pagination parameter
  if \<open>after\<close> is empty. It sends at most one page request, and exactly one if it returns
  without an error.
\<close>

theorem FetchPosts_request_url:
  "\<exists>res r' w'. FetchPosts r w subreddit limit after = Some (res, r', w') \<and>
     (\<forall>e\<in>set (new_events w w'). is_GET e \<longrightarrow> event_url e = spec_endpoint subreddit limit after) \<and>
     length (filter is_GET (new_events w w')) \<le> 1 \<and>
     (snd (snd res) = None \<longrightarrow> length (filter is_GET (new_events w w')) = 1)"
proof -
  from FetchPosts_returns obtain y where y: "FetchPosts r w subreddit limit after = Some y"
    by blast
  obtain res r' w' where yy: "y = (res, r', w')" by (cases y) auto
  from FetchPosts_trace [OF y] obtain es where
    es: "trace w' = trace w @ es" "get_ok subreddit limit after res (filter is_GET es)"
    by (auto simp: yy)
  have ne: "new_events w w' = es" by (simp add: new_events_def es(1))
  have "\<forall>e\<in>set es. is_GET e \<longrightarrow> event_url e = spec_endpoint subreddit limit after"
  proof (intro ballI impI)
    fix e assume "e \<in> set es" "is_GET e"
    then have "e \<in> set (filter is_GET es)" by simp
    from get_ok_member [OF es(2) this]
    show "event_url e = spec_endpoint subreddit limit after" by simp
  qed
  moreover note get_ok_length [OF es(2)]
  ultimately show ?thesis using y yy ne
    by (intro exI [of _ res] exI [of _ r'] exI [of _ w']) simp
qed

text \<open>
  Witness for C7: a fetch with limit 0 and an empty cursor sends one page request, to the
  URL with \<open>limit=100\<close> and without \<open>after\<close>.
\<close>

theorem FetchPosts_request_url_witness:
  "Http get_request (Responds 0 resp_500) \<in> set (new_events w_500
      (snd (snd (the (FetchPosts api_ready w_500 ''golang'' 0 ''''))))) \<and>
   is_GET (Http get_request (Responds 0 resp_500)) \<and>
   event_url (Http get_request (Responds 0 resp_500)) = spec_endpoint ''golang'' 0 '''' \<and>
   spec_endpoint ''golang'' 0 '''' = ''https://oauth.reddit.com/r/golang/new.json?limit=100''"
proof -
  from FetchPosts_request_url [of api_ready w_500 "''golang''" 0 "''''"] obtain res r' w' where
    f: "FetchPosts api_ready w_500 ''golang'' 0 '''' = Some (res, r', w')" and
    u: "\<forall>e\<in>set (new_events w_500 w'). is_GET e \<longrightarrow> event_url e = spec_endpoint ''golang'' 0 ''''"
    by blast
  from f have w': "w' = w_500\<lparr>pending := [], trace := [Http get_request (Responds 0 resp_500)]\<rparr>"
    by (simp add: fetch_500)
  have m: "Http get_request (Responds 0 resp_500) \<in> set (new_events w_500 w')"
    by (simp add: w' new_events_def w_500_def)
  have g: "is_GET (Http get_request (Responds 0 resp_500))"
    by (simp add: get_request_def)
  from u m g have
    "event_url (Http get_request (Responds 0 resp_500)) = spec_endpoint ''golang'' 0 ''''"
    by blast
  with m g f endpoint_golang show ?thesis by simp
qed

text \<open>
  Claim C8. Every call of \<open>FetchPosts\<close> returns, and if a page request of it was
  answered with a status other than 200 or with a body that does not decode, it returns
  the typed error for that response with no posts and an empty cursor. It has sent at
  most one page request, so the request was not repeated.
\<close>

theorem FetchPosts_bad_response:
  "\<exists>res r' w'. FetchPosts r w subreddit limit after = Some (res, r', w') \<and>
     length (filter is_GET (new_events w w')) \<le> 1 \<and>
     (\<forall>req n resp. Http req (Responds n resp) \<in> set (new_events w w') \<and>
         req_method req = ''GET'' \<and> bad_response resp \<longrightarrow>
         res = ([], '''', Some (fetch_error resp)))"
proof -
  from FetchPosts_returns obtain y where y: "FetchPosts r w subreddit limit after = Some y"
    by blast
  obtain res r' w' where yy: "y = (res, r', w')" by (cases y) auto
  from FetchPosts_trace [OF y] obtain es where
    es: "trace w' = trace w @ es" "get_ok subreddit limit after res (filter is_GET es)"
    by (auto simp: yy)
  have ne: "new_events w w' = es" by (simp add: new_events_def es(1))
  have "\<forall>req n resp. Http req (Responds n resp) \<in> set es \<and>
         req_method req = ''GET'' \<and> bad_response resp \<longrightarrow>
         res = ([], '''', Some (fetch_error resp))"
  proof (intro allI impI, elim conjE)
    fix req n resp
    assume a: "Http req (Responds n resp) \<in> set es" "req_method req = ''GET''"
      and b: "bad_response resp"
    from a have "Http req (Responds n resp) \<in> set (filter is_GET es)" by simp
    from get_ok_member [OF es(2) this] b
    show "res = ([], '''', Some (fetch_error resp))" by simp
  qed
  moreover from get_ok_length [OF es(2)] have "length (filter is_GET es) \<le> 1" by simp
  ultimately show ?thesis using y yy ne
    by (intro exI [of _ res] exI [of _ r'] exI [of _ w']) simp
qed

text \<open>
  Witness for C8: the page request is answered with status 500; the fetch returns the
  status error with no posts and no cursor.
\<close>

theorem FetchPosts_bad_response_witness:
  "Http get_request (Responds 0 resp_500) \<in> set (new_events w_500
      (snd (snd (the (FetchPosts api_ready w_500 ''golang'' 0 ''''))))) \<and>
   req_method get_request = ''GET'' \<and> bad_response resp_500 \<and>
   fst (the (FetchPosts api_ready w_500 ''golang'' 0 '''')) =
     ([], '''', Some (fetch_error resp_500)) \<and>
   fetch_error resp_500 = ErrStatus 500 ''oops''"
proof -
  from FetchPosts_bad_response [of api_ready w_500 "''golang''" 0 "''''"] obtain res r' w' where
    f: "FetchPosts api_ready w_500 ''golang'' 0 '''' = Some (res, r', w')" and
    u: "\<forall>req n resp. Http req (Responds n resp) \<in> set (new_events w_500 w') \<and>
         req_method req = ''GET'' \<and> bad_response resp \<longrightarrow>
         res = ([], '''', Some (fetch_error resp))"
    by blast
  from f have w': "w' = w_500\<lparr>pending := [], trace := [Http get_request (Responds 0 resp_500)]\<rparr>"
    by (simp add: fetch_500)
  have m: "Http get_request (Responds 0 resp_500) \<in> set (new_events w_500 w')"
    by (simp add: w' new_events_def w_500_def)
  have g: "req_method get_request = ''GET''" by (simp add: get_request_def)
  have b: "bad_response resp_500" by (simp add: bad_response_def resp_500_def)
  from u m g b have "res = ([], '''', Some (fetch_error resp_500))" by blast
  moreover have "fetch_error resp_500 = ErrStatus 500 ''oops''"
    by (simp add: fetch_error_def resp_500_def)
  ultimately show ?thesis using m g b f by simp
qed

text \<open>
  Claim C9. If the headers \<open>X-Ratelimit-Reset\<close> and \<open>X-Ratelimit-Used\<close> of a response
  both read as 0, \<open>updateRateLimits\<close> leaves the client as it was: the cached snapshot and
  the limiter's \<open>fillRate\<close> with it. A header that is absent or that \<open>Atoi\<close> rejects
  reads as 0; there is no failure.
\<close>

theorem updateRateLimits_skips_zero_headers:
  "(getHeaderAsInt (Header resp) ''X-Ratelimit-Reset'' = 0 \<and>
    getHeaderAsInt (Header resp) ''X-Ratelimit-Used'' = 0 \<longrightarrow> updateRateLimits r resp = r) \<and>
   (map_of h name = None \<or> Atoi (Header_Get h name) = None \<longrightarrow> getHeaderAsInt h name = 0)"
  by (auto simp: updateRateLimits_def getHeaderAsInt_def Header_Get_def Let_def)

text \<open>
  Witness for C9: no reset header, a usage header that is not a number, and a remaining
  header of 7 that is not stored.
\<close>

theorem updateRateLimits_skips_zero_headers_witness:
  "map_of (Header resp_malformed) ''X-Ratelimit-Reset'' = None \<and>
   Atoi (Header_Get (Header resp_malformed) ''X-Ratelimit-Used'') = None \<and>
   updateRateLimits api_ready resp_malformed = api_ready"
proof -
  have a: "map_of (Header resp_malformed) ''X-Ratelimit-Reset'' = None"
    by (simp add: resp_malformed_def)
  have b: "Atoi (Header_Get (Header resp_malformed) ''X-Ratelimit-Used'') = None"
    by (simp add: resp_malformed_def Header_Get_def Atoi_not_a_number)
  note c = updateRateLimits_skips_zero_headers
  from c [of resp_malformed api_ready "Header resp_malformed" "''X-Ratelimit-Reset''"] a
  have r0: "getHeaderAsInt (Header resp_malformed) ''X-Ratelimit-Reset'' = 0" by blast
  from c [of resp_malformed api_ready "Header resp_malformed" "''X-Ratelimit-Used''"] b
  have u0: "getHeaderAsInt (Header resp_malformed) ''X-Ratelimit-Used'' = 0" by blast
  from c [of resp_malformed api_ready "[]" "''''"] r0 u0
  have "updateRateLimits api_ready resp_malformed = api_ready" by blast
  with a b show ?thesis by blast
qed

text \<open>
  Claim C10. With a non-empty access token and the clock before \<open>tokenExpiry\<close>,
  \<open>authenticate\<close> returns \<open>nil\<close> and leaves the client and the world as they were: the
  limiter keeps its tokens, nothing is sent and nothing is slept.
\<close>

theorem authenticate_cached_token:
  "accessToken r \<noteq> '''' \<Longrightarrow> clock w < tokenExpiry r \<Longrightarrow> authenticate r w = (None, r, w)"
  by (simp add: authenticate_def)

text \<open>Witness for C10: the client that holds a token for a day.\<close>

theorem authenticate_cached_token_witness:
  "accessToken api_ready \<noteq> '''' \<and> clock w_500 < tokenExpiry api_ready \<and>
   authenticate api_ready w_500 = (None, api_ready, w_500)"
proof -
  have h: "accessToken api_ready \<noteq> ''''" "clock w_500 < tokenExpiry api_ready"
    by (simp_all add: api_ready_def w_500_def)
  from authenticate_cached_token [OF h] h show ?thesis by blast
qed


end
